theory Spec2Isabelle
  imports Complex_Main
begin

section \<open>Loading and preparation (app.py, lines 26-53)\<close>

text \<open>
  The dashboard reads one table of maternal-mortality records and prepares it once, at
  import time. The model starts after \<open>pd.read_csv\<close>: a field of a numeric column is
  either empty, a text that \<open>pd.to_numeric\<close> cannot read, or a number. Floating-point
  numbers are modelled by rationals, so rounding and the infinities are outside the model;
  integers are unbounded (the 64-bit range of \<open>astype(int)\<close> is not modelled).
  Strings are lists of code points below 256. The columns the program names are present
  in the file.
\<close>

datatype cell = Missing | NonNumeric string | Number rat

text \<open>\<open>pd.to_numeric(..., errors="coerce")\<close>: what cannot be read becomes NaN (\<open>None\<close>).\<close>

definition to_numeric :: "cell \<Rightarrow> rat option" where
  "to_numeric c = (case c of Missing \<Rightarrow> None | NonNumeric s \<Rightarrow> None | Number q \<Rightarrow> Some q)"

text \<open>\<open>.fillna(d)\<close> on one value.\<close>

definition fillna :: "'a \<Rightarrow> 'a option \<Rightarrow> 'a" where
  "fillna d v = (case v of None \<Rightarrow> d | Some x \<Rightarrow> x)"

text \<open>\<open>.astype(int)\<close> on a finite float truncates toward zero.\<close>

definition astype_int :: "rat \<Rightarrow> int" where
  "astype_int q = (if 0 \<le> q then \<lfloor>q\<rfloor> else \<lceil>q\<rceil>)"

text \<open>Lines 28 and 29: \<open>pd.to_numeric(col, errors="coerce").fillna(0).astype(int)\<close>.\<close>

definition coerce_count :: "cell \<Rightarrow> int" where
  "coerce_count c = astype_int (fillna 0 (to_numeric c))"

subsection \<open>Municipality codes (line 30)\<close>

text \<open>The class \<open>\d\<close> of the pattern, on the code points the model has.\<close>

definition is_digit :: "char \<Rightarrow> bool" where
  "is_digit c = (c \<in> set ''0123456789'')"

text \<open>
  \<open>.str.extract(r"(\d+)", expand=False)\<close>: the leftmost match of \<open>\d+\<close>, which is the
  first maximal run of digits; NaN when the text has no digit.
\<close>

definition extract_digits :: "string \<Rightarrow> string option" where
  "extract_digits s =
     (case dropWhile (\<lambda>c. \<not> is_digit c) s of
        [] \<Rightarrow> None
      | d # ds \<Rightarrow> Some (takeWhile is_digit (d # ds)))"

text \<open>
  \<open>str.zfill(width)\<close>: zeros are added on the left up to \<open>width\<close> characters, after a
  leading sign if there is one; a string that is already long enough is returned as it is.
\<close>

definition zfill :: "nat \<Rightarrow> string \<Rightarrow> string" where
  "zfill width s =
     (if width \<le> length s then s
      else (case s of
              [] \<Rightarrow> replicate width (CHR ''0'')
            | c # cs \<Rightarrow>
                if c = CHR ''+'' \<or> c = CHR ''-''
                then c # replicate (width - length s) (CHR ''0'') @ cs
                else replicate (width - length s) (CHR ''0'') @ s))"

text \<open>
  Line 30, on the text \<open>astype(str)\<close> gives for the field (an empty field reads
  \<open>nan\<close>, which has no digit).
\<close>

definition normalize_code :: "string \<Rightarrow> string option" where
  "normalize_code raw = map_option (zfill 5) (extract_digits raw)"

subsection \<open>Records\<close>

text \<open>The sentinel of line 31, \<^verbatim>\<open>Sin region\<close> with an accented o (code point 243).\<close>

definition sin_region :: string where
  "sin_region = ''Sin regi'' @ [char_of (243::nat)] @ ''n''"

text \<open>
  A row as \<open>pd.read_csv\<close> delivers it. The year column is written \<open>Anio\<close>; it
  holds integers, since the layout (line 83) applies \<open>int\<close> to every year at import
  time.
\<close>

record raw_row =
  raw_Anio :: int
  raw_NumeroCasos :: cell
  raw_NumeroPoblacionObjetivo :: cell
  raw_CodigoMunicipio :: string
  raw_NombreMunicipio :: "string option"
  raw_NombreRegion :: "string option"

record row =
  Anio :: int
  NumeroCasos :: int
  NumeroPoblacionObjetivo :: int
  CodigoMunicipio :: "string option"
  NombreMunicipio :: "string option"
  NombreRegion :: string
  tasa_100k :: "rat option"

text \<open>The quotient \<open>cases / population * 100000\<close>.\<close>

definition per_100k :: "int \<Rightarrow> int \<Rightarrow> rat" where
  "per_100k c p = of_int c / of_int p * 100000"

text \<open>
  Lines 28-36 on one row: the column starts as NaN and is assigned where the mask
  \<open>NumeroPoblacionObjetivo > 0\<close> holds.
\<close>

definition load_row :: "raw_row \<Rightarrow> row" where
  "load_row r =
     (let c = coerce_count (raw_NumeroCasos r);
          p = coerce_count (raw_NumeroPoblacionObjetivo r);
          mask = (p > 0)
      in \<lparr> Anio = raw_Anio r,
           NumeroCasos = c,
           NumeroPoblacionObjetivo = p,
           CodigoMunicipio = normalize_code (raw_CodigoMunicipio r),
           NombreMunicipio = raw_NombreMunicipio r,
           NombreRegion = fillna sin_region (raw_NombreRegion r),
           tasa_100k = (if mask then Some (per_100k c p) else None) \<rparr>)"

definition load_df :: "raw_row list \<Rightarrow> row list" where
  "load_df rows = map load_row rows"

subsection \<open>Historical aggregate per municipality (lines 42-50)\<close>

text \<open>
  \<open>groupby\<close> sorts the groups by key and leaves out the rows whose key is NaN. Keys
  are strings, compared as Python compares them: by code point, a proper prefix first.
\<close>

fun str_le :: "string \<Rightarrow> string \<Rightarrow> bool" where
  "str_le [] t = True"
| "str_le (a # s) [] = False"
| "str_le (a # s) (b # t) = (if a = b then str_le s t else (of_char a :: nat) < of_char b)"

fun insort_str :: "string \<Rightarrow> string list \<Rightarrow> string list" where
  "insort_str k [] = [k]"
| "insort_str k (x # xs) = (if str_le k x then k # x # xs else x # insort_str k xs)"

definition sort_str :: "string list \<Rightarrow> string list" where
  "sort_str ks = foldr insort_str ks []"

text \<open>The aggregation \<open>first\<close>: the first value of the group that is not null.\<close>

fun first_valid :: "'a option list \<Rightarrow> 'a option" where
  "first_valid [] = None"
| "first_valid (None # vs) = first_valid vs"
| "first_valid (Some v # vs) = Some v"

record agg_row =
  agg_CodigoMunicipio :: string
  agg_NumeroCasos :: int
  agg_NumeroPoblacionObjetivo :: int
  agg_NombreMunicipio :: "string option"
  agg_NombreRegion :: "string option"
  agg_tasa_100k :: "rat option"

definition group_keys :: "row list \<Rightarrow> string list" where
  "group_keys rows = sort_str (remdups (List.map_filter CodigoMunicipio rows))"

text \<open>
  One group of \<open>muni_agg\<close>, with the rate of line 49 (a population of exactly 0 is
  replaced by NaN before the division) and the padding of line 50.
\<close>

definition aggregate_group :: "row list \<Rightarrow> string \<Rightarrow> agg_row" where
  "aggregate_group rows k =
     (let grp = filter (\<lambda>r. CodigoMunicipio r = Some k) rows;
          c = sum_list (map NumeroCasos grp);
          p = sum_list (map NumeroPoblacionObjetivo grp)
      in \<lparr> agg_CodigoMunicipio = zfill 5 k,
           agg_NumeroCasos = c,
           agg_NumeroPoblacionObjetivo = p,
           agg_NombreMunicipio = first_valid (map NombreMunicipio grp),
           agg_NombreRegion = first_valid (map (\<lambda>r. Some (NombreRegion r)) grp),
           agg_tasa_100k = (if p = 0 then None else Some (per_100k c p)) \<rparr>)"

definition compute_muni_agg :: "row list \<Rightarrow> agg_row list" where
  "compute_muni_agg rows = map (aggregate_group rows) (group_keys rows)"

text \<open>
  Lines 52-53: the 0.95 quantile of the defined aggregate rates, by linear interpolation
  between the two nearest order statistics; nothing when there is no defined rate.
\<close>

definition quantile95 :: "rat list \<Rightarrow> rat option" where
  "quantile95 vs =
     (if vs = [] then None
      else let s = sort vs;
               n = length s;
               pos = 19 * (n - 1);
               lo = pos div 20;
               hi = min (lo + 1) (n - 1);
               frac = (of_nat (pos mod 20) :: rat) / 20
           in Some (s ! lo + (s ! hi - s ! lo) * frac))"

definition compute_global_vmax :: "agg_row list \<Rightarrow> rat option" where
  "compute_global_vmax agg = quantile95 (List.map_filter agg_tasa_100k agg)"

subsection \<open>Boundary shapes (lines 56-71)\<close>

text \<open>
  A feature of the boundary file, reduced to what the program reads: its \<open>id\<close> and the two
  properties that may stand in for it, each absent or a string. The file itself may be
  absent (\<open>None\<close>).
\<close>

record feature =
  feat_id :: "string option"
  prop_CodigoMunicipio :: "string option"
  prop_codigo :: "string option"

text \<open>Python's truth value of an absent or string value, and its \<open>or\<close>.\<close>

definition truthy :: "string option \<Rightarrow> bool" where
  "truthy v = (case v of None \<Rightarrow> False | Some s \<Rightarrow> s \<noteq> [])"

definition py_or :: "string option \<Rightarrow> string option \<Rightarrow> string option" where
  "py_or a b = (if truthy a then a else b)"

definition fix_feature :: "feature \<Rightarrow> feature" where
  "fix_feature feat =
     (if truthy (feat_id feat) then feat
      else (case py_or (prop_CodigoMunicipio feat) (prop_codigo feat) of
              None \<Rightarrow> feat
            | Some code \<Rightarrow> if code = [] then feat else feat\<lparr>feat_id := Some (zfill 5 code)\<rparr>))"

definition collect_ids :: "feature list \<Rightarrow> string set" where
  "collect_ids feats = set (map (zfill 5) (List.map_filter (\<lambda>f. if truthy (feat_id f) then feat_id f else None) feats))"

definition load_geojson :: "feature list option \<Rightarrow> feature list \<times> string set" where
  "load_geojson src =
     (case src of
        None \<Rightarrow> ([], {})
      | Some feats0 \<Rightarrow> (let feats = map fix_feature feats0 in (feats, collect_ids feats)))"

subsection \<open>The module-level state\<close>

record globals =
  df :: "row list"
  muni_agg :: "agg_row list"
  global_vmax :: "rat option"
  geojson_data :: "feature list"
  available_ids :: "string set"

definition load :: "raw_row list \<Rightarrow> feature list option \<Rightarrow> globals" where
  "load rows src =
     (let d = load_df rows;
          agg = compute_muni_agg d;
          geo = load_geojson src
      in \<lparr> df = d,
           muni_agg = agg,
           global_vmax = compute_global_vmax agg,
           geojson_data = fst geo,
           available_ids = snd geo \<rparr>)"

section \<open>The view refresh (app.py, lines 120-214)\<close>

text \<open>
  The charting library is outside the model: an artifact is the data the program hands to
  the chart constructor, column by column, and the constructors are total (what the library
  itself may reject, such as a negative marker size, is not modelled). The selected year
  arrives from the year control as an integer or as no value (\<open>None\<close>); the selected
  region is a string.
\<close>

record choropleth =
  chor_geojson :: "feature list"
  chor_locations :: "string list"
  chor_z :: "rat list"
  chor_zmax :: "rat option"
  chor_customdata :: "(string \<times> rat) list"

datatype figure =
    MapFig choropleth
  | TimeFig "int list" "rat option list" "int list" "int list"
  | HistFig "rat option list"
  | BoxFig "string list" "rat option list"
  | ScatterFig "int list" "rat option list" "string option list" "int list"
  | EmptyFig string

record stats =
  st_total_casos :: int
  st_tasa_prom :: "rat option"
  st_municipios_afectados :: nat
  st_total_mun :: nat
  st_year :: int
  st_region :: string

datatype summary = StatsText stats | ErrorText string

record outputs =
  map_fig :: figure
  time_fig :: figure
  dist_fig :: figure
  box_fig :: figure
  scatter_fig :: figure
  stats_html :: summary

datatype error = TypeError string

fun str_of_error :: "error \<Rightarrow> string" where
  "str_of_error (TypeError msg) = msg"

text \<open>\<open>int(selected_year)\<close>: an integer is returned as it is, \<open>None\<close> raises.\<close>

definition py_int :: "int option \<Rightarrow> error + int" where
  "py_int v =
     (case v of
        None \<Rightarrow> Inl (TypeError (''int() argument must be a string, a bytes-like object or a real number, not ''
                               @ [CHR 0x27] @ ''NoneType'' @ [CHR 0x27]))
      | Some y \<Rightarrow> Inr y)"

subsection \<open>Filters (lines 123-124)\<close>

definition filtered_df :: "globals \<Rightarrow> string \<Rightarrow> row list" where
  "filtered_df g selected_region =
     (if selected_region = ''all'' then df g
      else filter (\<lambda>r. NombreRegion r = selected_region) (df g))"

definition year_df :: "row list \<Rightarrow> int \<Rightarrow> row list" where
  "year_df fd y = filter (\<lambda>r. Anio r = y) fd"

subsection \<open>Map (lines 127-145)\<close>

definition map_data :: "globals \<Rightarrow> agg_row list" where
  "map_data g =
     (if available_ids g \<noteq> {}
      then filter (\<lambda>a. agg_CodigoMunicipio a \<in> available_ids g) (muni_agg g)
      else muni_agg g)"

text \<open>\<open>astype(str)\<close> on a name that may be null.\<close>

definition astype_str :: "string option \<Rightarrow> string" where
  "astype_str v = (case v of None \<Rightarrow> ''nan'' | Some s \<Rightarrow> s)"

definition zmax_of :: "rat option \<Rightarrow> rat option" where
  "zmax_of v = (case v of None \<Rightarrow> None | Some m \<Rightarrow> if m \<noteq> 0 \<and> m > 0 then Some m else None)"

definition build_map :: "globals \<Rightarrow> figure" where
  "build_map g =
     (let md = map_data g
      in MapFig \<lparr> chor_geojson = geojson_data g,
                  chor_locations = map agg_CodigoMunicipio md,
                  chor_z = map (\<lambda>a. fillna 0 (agg_tasa_100k a)) md,
                  chor_zmax = zmax_of (global_vmax g),
                  chor_customdata =
                    map (\<lambda>a. (astype_str (agg_NombreMunicipio a), fillna 0 (agg_tasa_100k a))) md \<rparr>)"

subsection \<open>Time series (lines 152-156)\<close>

record time_row =
  t_Anio :: int
  t_NumeroCasos :: int
  t_NumeroPoblacionObjetivo :: int
  t_tasa_100k :: "rat option"

definition year_group :: "row list \<Rightarrow> int \<Rightarrow> time_row" where
  "year_group fd y =
     (let grp = filter (\<lambda>r. Anio r = y) fd;
          c = sum_list (map NumeroCasos grp);
          p = sum_list (map NumeroPoblacionObjetivo grp)
      in \<lparr> t_Anio = y,
           t_NumeroCasos = c,
           t_NumeroPoblacionObjetivo = p,
           t_tasa_100k = (if p = 0 then None else Some (per_100k c p)) \<rparr>)"

definition temporal_data :: "row list \<Rightarrow> time_row list" where
  "temporal_data fd = map (year_group fd) (sort (remdups (map Anio fd)))"

subsection \<open>Summary statistics (lines 196-200)\<close>

definition total_casos :: "row list \<Rightarrow> int" where
  "total_casos fd = sum_list (map NumeroCasos fd)"

definition total_pob :: "row list \<Rightarrow> int" where
  "total_pob fd = sum_list (map NumeroPoblacionObjetivo fd)"

definition tasa_prom :: "row list \<Rightarrow> rat option" where
  "tasa_prom fd =
     (if total_pob fd > 0 then Some (per_100k (total_casos fd) (total_pob fd)) else None)"

text \<open>Line 199: the number of rows of the filtered set whose case count is positive.\<close>

definition municipios_afectados :: "row list \<Rightarrow> nat" where
  "municipios_afectados fd = length (filter (\<lambda>r. NumeroCasos r > 0) fd)"

text \<open>Line 200: \<open>nunique\<close> counts the distinct codes and leaves nulls out.\<close>

definition total_mun :: "row list \<Rightarrow> nat" where
  "total_mun fd = length (remdups (List.map_filter CodigoMunicipio fd))"

subsection \<open>The callback\<close>

text \<open>The body of the \<open>try\<close> block: the raised exception, or the six outputs.\<close>

definition dashboard_body :: "globals \<Rightarrow> int option \<Rightarrow> string \<Rightarrow> error + outputs" where
  "dashboard_body g selected_year selected_region =
     (let fd = filtered_df g selected_region
      in case py_int selected_year of
           Inl e \<Rightarrow> Inl e
         | Inr y \<Rightarrow>
             (let yd = year_df fd y;
                  td = temporal_data fd
              in Inr \<lparr> map_fig = build_map g,
                       time_fig = TimeFig (map t_Anio td) (map t_tasa_100k td)
                                          (map t_Anio td) (map t_NumeroCasos td),
                       dist_fig = HistFig (map tasa_100k yd),
                       box_fig = BoxFig (map NombreRegion fd) (map tasa_100k fd),
                       scatter_fig = ScatterFig (map NumeroPoblacionObjetivo yd) (map tasa_100k yd)
                                                (map NombreMunicipio yd) (map NumeroCasos yd),
                       stats_html = StatsText
                         \<lparr> st_total_casos = total_casos fd,
                           st_tasa_prom = tasa_prom fd,
                           st_municipios_afectados = municipios_afectados fd,
                           st_total_mun = total_mun fd,
                           st_year = y,
                           st_region = (if selected_region = ''all'' then ''Todas''
                                        else selected_region) \<rparr> \<rparr>))"

text \<open>The \<open>except\<close> branch (lines 211-214): one empty figure, used five times, and a message.\<close>

definition error_outputs :: "error \<Rightarrow> outputs" where
  "error_outputs e =
     (let empty = EmptyFig (''Error interno: '' @ str_of_error e)
      in \<lparr> map_fig = empty, time_fig = empty, dist_fig = empty, box_fig = empty,
           scatter_fig = empty,
           stats_html = ErrorText (''Error interno: '' @ str_of_error e) \<rparr>)"

text \<open>
  \<open>update_dashboard\<close> with the module-level state passed in and handed back: the
  function reads \<open>df\<close>, \<open>muni_agg\<close>, \<open>global_vmax\<close>, \<open>geojson_data\<close> and
  \<open>available_ids\<close>, works on copies and assigns to none of them.
\<close>

definition update_dashboard :: "int option \<Rightarrow> string \<Rightarrow> globals \<Rightarrow> outputs \<times> globals" where
  "update_dashboard selected_year selected_region g =
     (case dashboard_body g selected_year selected_region of
        Inr out \<Rightarrow> (out, g)
      | Inl e \<Rightarrow> (error_outputs e, g))"

section \<open>A reading of the summary by its words, and example data\<close>

text \<open>
  Follows the spec's words, not the source: "count of municipalities with cases > 0", that
  is, the number of distinct municipality codes of the filtered set that have a record with
  a positive case count. It is compared with \<open>municipios_afectados\<close> below.
\<close>

definition spec_municipios_afectados :: "row list \<Rightarrow> nat" where
  "spec_municipios_afectados fd =
     length (remdups (List.map_filter CodigoMunicipio (filter (\<lambda>r. NumeroCasos r > 0) fd)))"

text \<open>
  A small table: one municipality observed in two years, and one row whose counts and code
  cannot be read. The boundary file has two shapes, one of them without an \<open>id\<close>.
\<close>

definition example_rows :: "raw_row list" where
  "example_rows =
     [\<lparr> raw_Anio = 2020, raw_NumeroCasos = Number 2, raw_NumeroPoblacionObjetivo = Number 100000,
         raw_CodigoMunicipio = ''5001'', raw_NombreMunicipio = Some ''Medellin'',
         raw_NombreRegion = Some ''Valle de Aburra'' \<rparr>,
      \<lparr> raw_Anio = 2021, raw_NumeroCasos = Number 1, raw_NumeroPoblacionObjetivo = Number 100000,
         raw_CodigoMunicipio = ''5001'', raw_NombreMunicipio = Some ''Medellin'',
         raw_NombreRegion = Some ''Valle de Aburra'' \<rparr>,
      \<lparr> raw_Anio = 2020, raw_NumeroCasos = Missing, raw_NumeroPoblacionObjetivo = NonNumeric ''n/d'',
         raw_CodigoMunicipio = ''nan'', raw_NombreMunicipio = None,
         raw_NombreRegion = None \<rparr>]"

definition example_geo :: "feature list option" where
  "example_geo =
     Some [\<lparr> feat_id = None, prop_CodigoMunicipio = Some ''5001'', prop_codigo = None \<rparr>,
           \<lparr> feat_id = Some ''05002'', prop_CodigoMunicipio = None, prop_codigo = None \<rparr>]"

definition example_globals :: globals where
  "example_globals = load example_rows example_geo"

section \<open>Properties of the loader\<close>

subsection \<open>The example, evaluated\<close>

lemmas eval_defs = example_rows_def example_geo_def load_def load_df_def load_row_def Let_def
  coerce_count_def to_numeric_def fillna_def astype_int_def normalize_code_def extract_digits_def
  is_digit_def zfill_def per_100k_def sin_region_def compute_muni_agg_def group_keys_def
  aggregate_group_def sort_str_def compute_global_vmax_def quantile95_def load_geojson_def
  fix_feature_def collect_ids_def truthy_def py_or_def

lemma example_df:
  "load_df example_rows =
     [\<lparr> Anio = 2020, NumeroCasos = 2, NumeroPoblacionObjetivo = 100000,
         CodigoMunicipio = Some ''05001'', NombreMunicipio = Some ''Medellin'',
         NombreRegion = ''Valle de Aburra'', tasa_100k = Some 2 \<rparr>,
      \<lparr> Anio = 2021, NumeroCasos = 1, NumeroPoblacionObjetivo = 100000,
         CodigoMunicipio = Some ''05001'', NombreMunicipio = Some ''Medellin'',
         NombreRegion = ''Valle de Aburra'', tasa_100k = Some 1 \<rparr>,
      \<lparr> Anio = 2020, NumeroCasos = 0, NumeroPoblacionObjetivo = 0,
         CodigoMunicipio = None, NombreMunicipio = None,
         NombreRegion = sin_region, tasa_100k = None \<rparr>]"
  by (simp add: eval_defs)

lemma example_load:
  "example_globals =
     \<lparr> df = load_df example_rows,
       muni_agg = [\<lparr> agg_CodigoMunicipio = ''05001'', agg_NumeroCasos = 3,
                     agg_NumeroPoblacionObjetivo = 200000,
                     agg_NombreMunicipio = Some ''Medellin'',
                     agg_NombreRegion = Some ''Valle de Aburra'',
                     agg_tasa_100k = Some (3 / 2) \<rparr>],
       global_vmax = Some (3 / 2),
       geojson_data =
         [\<lparr> feat_id = Some ''05001'', prop_CodigoMunicipio = Some ''5001'', prop_codigo = None \<rparr>,
          \<lparr> feat_id = Some ''05002'', prop_CodigoMunicipio = None, prop_codigo = None \<rparr>],
       available_ids = {''05001'', ''05002''} \<rparr>"
  by (simp add: example_globals_def eval_defs)

subsection \<open>Numeric coercion\<close>






lemma load_row_fields:
  "NumeroCasos (load_row r) = coerce_count (raw_NumeroCasos r)"
  "NumeroPoblacionObjetivo (load_row r) = coerce_count (raw_NumeroPoblacionObjetivo r)"
  "CodigoMunicipio (load_row r) = normalize_code (raw_CodigoMunicipio r)"
  "tasa_100k (load_row r) =
     (if 0 < coerce_count (raw_NumeroPoblacionObjetivo r)
      then Some (per_100k (coerce_count (raw_NumeroCasos r))
                          (coerce_count (raw_NumeroPoblacionObjetivo r)))
      else None)"
  by (simp_all add: load_row_def Let_def)




subsection \<open>The rate of a record\<close>




subsection \<open>Municipality codes\<close>

lemma extract_digits_None: "extract_digits s = None \<longleftrightarrow> (\<forall>c \<in> set s. \<not> is_digit c)"
proof (cases "dropWhile (\<lambda>c. \<not> is_digit c) s")
  case Nil
  then have "extract_digits s = None"
    by (simp add: extract_digits_def del: dropWhile_eq_Nil_conv)
  moreover from Nil have "\<forall>c \<in> set s. \<not> is_digit c"
    by (simp only: dropWhile_eq_Nil_conv)
  ultimately show ?thesis by simp
next
  case (Cons d ds)
  then have "extract_digits s = Some (takeWhile is_digit (d # ds))"
    by (simp add: extract_digits_def del: dropWhile_eq_Nil_conv)
  moreover have "\<not> (\<forall>c \<in> set s. \<not> is_digit c)"
  proof
    assume "\<forall>c \<in> set s. \<not> is_digit c"
    then have "dropWhile (\<lambda>c. \<not> is_digit c) s = []" by simp
    with Cons show False by simp
  qed
  ultimately show ?thesis by simp
qed

text \<open>The extracted text is the first maximal run of digits of the field.\<close>

lemma extract_digits_Some:
  assumes "extract_digits s = Some run"
  shows "run \<noteq> [] \<and> (\<forall>c \<in> set run. is_digit c) \<and>
         (\<exists>pre post. s = pre @ run @ post \<and> (\<forall>c \<in> set pre. \<not> is_digit c) \<and>
                     (post = [] \<or> \<not> is_digit (hd post)))"
proof -
  let ?rest = "dropWhile (\<lambda>c. \<not> is_digit c) s"
  have ne: "?rest \<noteq> []" and run: "run = takeWhile is_digit ?rest"
    using assms unfolding extract_digits_def by (cases ?rest; simp)+
  from ne have "is_digit (hd ?rest)"
    using hd_dropWhile [of "\<lambda>c. \<not> is_digit c" s] by simp
  with ne run have "run \<noteq> []"
    by (cases ?rest) auto
  moreover have "\<forall>c \<in> set run. is_digit c"
    unfolding run by (auto dest: set_takeWhileD)
  moreover have "s = takeWhile (\<lambda>c. \<not> is_digit c) s @ run @ dropWhile is_digit ?rest"
    unfolding run by simp
  moreover have "\<forall>c \<in> set (takeWhile (\<lambda>c. \<not> is_digit c) s). \<not> is_digit c"
    by (auto dest: set_takeWhileD)
  moreover have "dropWhile is_digit ?rest = [] \<or> \<not> is_digit (hd (dropWhile is_digit ?rest))"
    using hd_dropWhile [of is_digit ?rest] by blast
  ultimately show ?thesis by blast
qed

text \<open>On a run of digits there is no sign to step over: \<open>zfill\<close> only adds zeros in front.\<close>

lemma zfill_digits:
  assumes "run \<noteq> []" and "\<forall>c \<in> set run. is_digit c"
  shows "zfill w run = replicate (w - length run) (CHR ''0'') @ run"
proof (cases run)
  case Nil
  with assms show ?thesis by simp
next
  case (Cons c cs)
  with assms have "is_digit c" by simp
  then have "c \<noteq> CHR ''+''" and "c \<noteq> CHR ''-''"
    by (auto simp: is_digit_def)
  with Cons show ?thesis
    by (simp add: zfill_def)
qed

lemma is_digit_zero: "is_digit (CHR ''0'')"
  by (simp add: is_digit_def)

lemma normalize_code_Some:
  assumes "normalize_code raw = Some code"
  shows "\<exists>pre run post.
           raw = pre @ run @ post \<and> (\<forall>c \<in> set pre. \<not> is_digit c) \<and>
           run \<noteq> [] \<and> (\<forall>c \<in> set run. is_digit c) \<and>
           (post = [] \<or> \<not> is_digit (hd post)) \<and>
           code = replicate (5 - length run) (CHR ''0'') @ run \<and>
           length code = max 5 (length run) \<and> (\<forall>c \<in> set code. is_digit c)"
proof -
  from assms obtain run where ex: "extract_digits raw = Some run" and code: "code = zfill 5 run"
    by (auto simp: normalize_code_def)
  from extract_digits_Some [OF ex] obtain pre post
    where ne: "run \<noteq> []" and dig: "\<forall>c \<in> set run. is_digit c"
      and split: "raw = pre @ run @ post" "\<forall>c \<in> set pre. \<not> is_digit c"
                 "post = [] \<or> \<not> is_digit (hd post)"
    by blast
  have eq: "code = replicate (5 - length run) (CHR ''0'') @ run"
    unfolding code by (rule zfill_digits [OF ne dig])
  have "length code = max 5 (length run)"
    unfolding eq by (simp add: max_def)
  moreover have "\<forall>c \<in> set code. is_digit c"
    unfolding eq using dig by (auto simp: is_digit_zero)
  ultimately show ?thesis using ne dig split eq by blast
qed

text \<open>Rows without a code belong to no group of \<open>muni_agg\<close>, so the map never sees them.\<close>

lemma map_filter_filter_defined:
  "List.map_filter f (filter (\<lambda>r. f r \<noteq> None) rows) = List.map_filter f rows"
  by (induction rows) (auto split: option.splits)

lemma filter_key_filter_defined:
  "filter (\<lambda>r. f r = Some k) (filter (\<lambda>r. f r \<noteq> None) rows) = filter (\<lambda>r. f r = Some k) rows"
  by (induction rows) auto

lemma aggregate_group_drops_undefined:
  "aggregate_group (filter (\<lambda>r. CodigoMunicipio r \<noteq> None) rows) = aggregate_group rows"
  unfolding aggregate_group_def filter_key_filter_defined ..

lemma compute_muni_agg_drops_undefined:
  "compute_muni_agg (filter (\<lambda>r. CodigoMunicipio r \<noteq> None) rows) = compute_muni_agg rows"
  unfolding compute_muni_agg_def group_keys_def map_filter_filter_defined
  by (simp only: aggregate_group_drops_undefined)

lemma load_df_filter:
  "load_df (filter (\<lambda>r. normalize_code (raw_CodigoMunicipio r) \<noteq> None) rows) =
   filter (\<lambda>r. CodigoMunicipio r \<noteq> None) (load_df rows)"
  by (simp add: load_df_def filter_map o_def load_row_fields del: not_None_eq)

lemma build_map_drops_undefined:
  "build_map (load (filter (\<lambda>r. normalize_code (raw_CodigoMunicipio r) \<noteq> None) rows) src) =
   build_map (load rows src)"
  by (simp add: build_map_def map_data_def load_def Let_def load_df_filter
        compute_muni_agg_drops_undefined del: not_None_eq)

text \<open>
  Claim C2, as the code has it. Normalization takes the first run of digits of the raw field
  and pads it with zeros on the left up to 5 characters; the result is a numeric string of
  at least 5 characters, of exactly 5 when the run has at most 5 digits, and the run itself
  when it is longer. The normalized code is undefined exactly when the raw value has no
  digit, and the rows with an undefined code have no effect on the map.
\<close>

theorem normalize_code_pads_first_digit_run:
  "(normalize_code raw = None \<longleftrightarrow> (\<forall>c \<in> set raw. \<not> is_digit c)) \<and>
   (\<forall>code. normalize_code raw = Some code \<longrightarrow>
      (\<exists>pre run post.
         raw = pre @ run @ post \<and> (\<forall>c \<in> set pre. \<not> is_digit c) \<and>
         run \<noteq> [] \<and> (\<forall>c \<in> set run. is_digit c) \<and>
         (post = [] \<or> \<not> is_digit (hd post)) \<and>
         code = replicate (5 - length run) (CHR ''0'') @ run \<and>
         length code = max 5 (length run) \<and> (\<forall>c \<in> set code. is_digit c))) \<and>
   build_map (load (filter (\<lambda>r. normalize_code (raw_CodigoMunicipio r) \<noteq> None) rows) src) =
     build_map (load rows src)"
proof -
  have "normalize_code raw = None \<longleftrightarrow> (\<forall>c \<in> set raw. \<not> is_digit c)"
    by (simp add: normalize_code_def extract_digits_None)
  then show ?thesis
    using normalize_code_Some [of raw] build_map_drops_undefined [of rows src] by blast
qed

text \<open>
  A field with text around the number, and the example table, whose third row has no code:
  the map is the one of the first two rows alone.
\<close>

theorem normalize_code_pads_first_digit_run_witness:
  "normalize_code ''Cod. 5001-A7'' = Some ''05001'' \<and>
   (\<exists>pre run post.
      ''Cod. 5001-A7'' = pre @ run @ post \<and> (\<forall>c \<in> set pre. \<not> is_digit c) \<and>
      run \<noteq> [] \<and> (\<forall>c \<in> set run. is_digit c) \<and>
      (post = [] \<or> \<not> is_digit (hd post)) \<and>
      ''05001'' = replicate (5 - length run) (CHR ''0'') @ run \<and>
      length ''05001'' = max 5 (length run) \<and> (\<forall>c \<in> set ''05001''. is_digit c)) \<and>
   normalize_code ''nan'' = None \<and>
   build_map (load (take 2 example_rows) example_geo) = build_map (load example_rows example_geo)"
proof -
  have h: "normalize_code ''Cod. 5001-A7'' = Some ''05001''"
    by (simp add: normalize_code_def extract_digits_def is_digit_def zfill_def)
  have n: "\<forall>c \<in> set ''nan''. \<not> is_digit c"
    by (simp add: is_digit_def)
  have f: "filter (\<lambda>r. normalize_code (raw_CodigoMunicipio r) \<noteq> None) example_rows
             = take 2 example_rows"
    by (simp add: example_rows_def normalize_code_def extract_digits_def is_digit_def)
  from normalize_code_pads_first_digit_run [of "''Cod. 5001-A7''" example_rows example_geo]
       normalize_code_pads_first_digit_run [of "''nan''" example_rows example_geo] h n f
  show ?thesis by simp
qed

text \<open>An eight-digit field is already longer than 5, and \<open>zfill\<close> returns it unchanged.\<close>

theorem normalize_code_eight_digits:
  "normalize_code ''05001000'' = Some ''05001000'' \<and> length ''05001000'' \<noteq> 5"
  by (simp add: normalize_code_def extract_digits_def is_digit_def zfill_def)

section \<open>Properties of the view refresh\<close>

subsection \<open>The callback unfolded\<close>

lemma dashboard_body_Some:
  "dashboard_body g (Some y) r =
     Inr \<lparr> map_fig = build_map g,
           time_fig = TimeFig (map t_Anio (temporal_data (filtered_df g r)))
                              (map t_tasa_100k (temporal_data (filtered_df g r)))
                              (map t_Anio (temporal_data (filtered_df g r)))
                              (map t_NumeroCasos (temporal_data (filtered_df g r))),
           dist_fig = HistFig (map tasa_100k (year_df (filtered_df g r) y)),
           box_fig = BoxFig (map NombreRegion (filtered_df g r)) (map tasa_100k (filtered_df g r)),
           scatter_fig = ScatterFig (map NumeroPoblacionObjetivo (year_df (filtered_df g r) y))
                                    (map tasa_100k (year_df (filtered_df g r) y))
                                    (map NombreMunicipio (year_df (filtered_df g r) y))
                                    (map NumeroCasos (year_df (filtered_df g r) y)),
           stats_html = StatsText
             \<lparr> st_total_casos = total_casos (filtered_df g r),
               st_tasa_prom = tasa_prom (filtered_df g r),
               st_municipios_afectados = municipios_afectados (filtered_df g r),
               st_total_mun = total_mun (filtered_df g r),
               st_year = y,
               st_region = (if r = ''all'' then ''Todas'' else r) \<rparr> \<rparr>"
  by (simp add: dashboard_body_def py_int_def Let_def)

lemma dashboard_body_None:
  "dashboard_body g None r =
     Inl (TypeError (''int() argument must be a string, a bytes-like object or a real number, not ''
                     @ [CHR 0x27] @ ''NoneType'' @ [CHR 0x27]))"
  by (simp add: dashboard_body_def py_int_def Let_def)




lemma example_filtered_all: "filtered_df example_globals ''all'' = load_df example_rows"
  by (simp add: filtered_df_def example_load)


subsection \<open>The map\<close>





subsection \<open>Time series and summary\<close>

text \<open>
  Summing, over a list of distinct keys that covers the rows, the sums of the groups gives
  the sum over all rows.
\<close>

lemma sum_list_groups:
  fixes v :: "'a \<Rightarrow> int"
  assumes "distinct ks" and "key ` set xs \<subseteq> set ks"
  shows "(\<Sum>k\<leftarrow>ks. sum_list (map v (filter (\<lambda>x. key x = k) xs))) = sum_list (map v xs)"
  using assms(2)
proof (induction xs)
  case Nil
  then show ?case by simp
next
  case (Cons x xs)
  let ?S = "\<lambda>k. sum_list (map v (filter (\<lambda>x. key x = k) xs))"
  from Cons.prems have mem: "key x \<in> set ks" and sub: "key ` set xs \<subseteq> set ks"
    by auto
  have "(\<Sum>k\<leftarrow>ks. sum_list (map v (filter (\<lambda>z. key z = k) (x # xs)))) =
        (\<Sum>k\<leftarrow>ks. (if key x = k then v x else 0) + ?S k)"
    by (rule arg_cong [where f = sum_list], rule map_cong) auto
  also have "\<dots> = (\<Sum>k\<in>set ks. (if key x = k then v x else 0) + ?S k)"
    using assms(1) by (simp add: sum_list_distinct_conv_sum_set)
  also have "\<dots> = (\<Sum>k\<in>set ks. if key x = k then v x else 0) + (\<Sum>k\<in>set ks. ?S k)"
    by (simp add: sum.distrib)
  also have "(\<Sum>k\<in>set ks. if key x = k then v x else 0) = v x"
    using mem by simp
  also have "(\<Sum>k\<in>set ks. ?S k) = (\<Sum>k\<leftarrow>ks. ?S k)"
    using assms(1) by (simp add: sum_list_distinct_conv_sum_set)
  also have "\<dots> = sum_list (map v xs)"
    by (rule Cons.IH [OF sub])
  finally show ?case by simp
qed

lemma temporal_years: "map t_Anio (temporal_data fd) = sort (remdups (map Anio fd))"
  by (simp add: temporal_data_def year_group_def Let_def o_def)

lemma temporal_cases:
  "map t_NumeroCasos (temporal_data fd) =
   map (\<lambda>y. sum_list (map NumeroCasos (filter (\<lambda>r. Anio r = y) fd)))
       (sort (remdups (map Anio fd)))"
  by (simp add: temporal_data_def year_group_def Let_def o_def)

text \<open>
  Claim C4. For every region filter and every loaded record set, the case counts of the
  time series of the filtered set add up to the total-cases statistic of the same set; the
  series has one point per year present in the filtered set.
\<close>

theorem time_series_cases_add_up_to_total:
  "sum_list (map t_NumeroCasos (temporal_data (filtered_df g selected_region)))
     = total_casos (filtered_df g selected_region) \<and>
   distinct (map t_Anio (temporal_data (filtered_df g selected_region))) \<and>
   set (map t_Anio (temporal_data (filtered_df g selected_region)))
     = Anio ` set (filtered_df g selected_region)"
proof -
  let ?fd = "filtered_df g selected_region"
  let ?ks = "sort (remdups (map Anio ?fd))"
  have d: "distinct ?ks" by simp
  have s: "Anio ` set ?fd \<subseteq> set ?ks" by simp
  have "sum_list (map t_NumeroCasos (temporal_data ?fd)) = total_casos ?fd"
    unfolding temporal_cases total_casos_def by (rule sum_list_groups [OF d s])
  moreover have "distinct (map t_Anio (temporal_data ?fd))"
    unfolding temporal_years by simp
  moreover have "set (map t_Anio (temporal_data ?fd)) = Anio ` set ?fd"
    unfolding temporal_years by simp
  ultimately show ?thesis by blast
qed

text \<open>The example: 2 cases in 2020 and 1 in 2021, 3 in all.\<close>

theorem time_series_cases_add_up_to_total_witness:
  "map t_NumeroCasos (temporal_data (filtered_df example_globals ''all'')) = [2, 1] \<and>
   total_casos (filtered_df example_globals ''all'') = 3"
proof -
  have c: "map t_NumeroCasos (temporal_data (filtered_df example_globals ''all'')) = [2, 1]"
    by (simp add: temporal_cases example_filtered_all example_df)
  from time_series_cases_add_up_to_total [of example_globals "''all''"] c
  show ?thesis by simp
qed

text \<open>
  Claim C5, at the example. Over the filtered set of the example (one municipality, with
  cases in 2020 and in 2021) the refresh reports 2 affected municipalities out of 1: line
  199 counts the rows with a positive case count, where the claim asks for the number of
  municipalities with cases, which is 1. The other statistics are computed over the
  filtered set as the claim says.
\<close>

theorem municipios_afectados_counts_rows:
  "stats_html (fst (update_dashboard (Some 2021) ''all'' example_globals)) =
     StatsText \<lparr> st_total_casos = 3, st_tasa_prom = Some (3 / 2),
                 st_municipios_afectados = 2, st_total_mun = 1,
                 st_year = 2021, st_region = ''Todas'' \<rparr> \<and>
   total_pob (filtered_df example_globals ''all'') = 200000 \<and>
   spec_municipios_afectados (filtered_df example_globals ''all'') = 1"
  by (simp add: update_dashboard_def dashboard_body_Some example_filtered_all example_df
        total_casos_def total_pob_def tasa_prom_def municipios_afectados_def total_mun_def
        spec_municipios_afectados_def per_100k_def)

subsection \<open>Purity and failure\<close>



text \<open>
  Claim C7. If the body of the refresh fails, the refresh still returns: all five figures
  are the same empty figure titled with the error, the summary is the plain error message,
  and the module-level state is untouched. No output of a failed refresh is a computed one.
\<close>

theorem failed_refresh_returns_placeholders:
  assumes "dashboard_body g selected_year selected_region = Inl e"
  shows "update_dashboard selected_year selected_region g =
           (\<lparr> map_fig = EmptyFig (''Error interno: '' @ str_of_error e),
              time_fig = EmptyFig (''Error interno: '' @ str_of_error e),
              dist_fig = EmptyFig (''Error interno: '' @ str_of_error e),
              box_fig = EmptyFig (''Error interno: '' @ str_of_error e),
              scatter_fig = EmptyFig (''Error interno: '' @ str_of_error e),
              stats_html = ErrorText (''Error interno: '' @ str_of_error e) \<rparr>, g)"
  using assms by (simp add: update_dashboard_def error_outputs_def Let_def)

text \<open>A refresh of the example without a year: \<open>int(None)\<close> raises in line 124.\<close>

theorem failed_refresh_returns_placeholders_witness:
  "dashboard_body example_globals None ''all'' =
     Inl (TypeError (''int() argument must be a string, a bytes-like object or a real number, not ''
                     @ [CHR 0x27] @ ''NoneType'' @ [CHR 0x27])) \<and>
   map_fig (fst (update_dashboard None ''all'' example_globals)) =
     EmptyFig (''Error interno: int() argument must be a string, a bytes-like object or a real number, not ''
               @ [CHR 0x27] @ ''NoneType'' @ [CHR 0x27]) \<and>
   stats_html (fst (update_dashboard None ''all'' example_globals)) =
     ErrorText (''Error interno: int() argument must be a string, a bytes-like object or a real number, not ''
               @ [CHR 0x27] @ ''NoneType'' @ [CHR 0x27]) \<and>
   snd (update_dashboard None ''all'' example_globals) = example_globals"
proof -
  have h: "dashboard_body example_globals None ''all'' =
     Inl (TypeError (''int() argument must be a string, a bytes-like object or a real number, not ''
                     @ [CHR 0x27] @ ''NoneType'' @ [CHR 0x27]))"
    by (rule dashboard_body_None)
  from failed_refresh_returns_placeholders [OF h] h show ?thesis by simp
qed

subsection \<open>A region that is not in the table\<close>




end
